theory Spec2Isabelle
  imports Complex_Main "HOL-Library.AList" "HOL-Library.Sublist"
begin

section \<open>Data model\<close>

text \<open>
  The development embeds \<^verbatim>\<open>lightning_hpo/app/sweeper.py\<close> (the \<^verbatim>\<open>Sweeper\<close> flow and
  its dashboard function \<^verbatim>\<open>render_fn\<close>) and \<^verbatim>\<open>lightning_hpo/algorithm/base.py\<close>
  (the abstract \<^verbatim>\<open>Algorithm\<close> class). Python exceptions are values of \<open>py_error\<close>;
  a function that can raise returns \<open>py_error + 'a\<close>.
\<close>

datatype py_error = KeyError | ValueError

text \<open>
  Modelled from the spec: the search-space distribution (module
  \<^verbatim>\<open>lightning_hpo.distributions\<close>, used by the examples, not part of the sources at
  hand). Section 3 of the specification gives its four variants.
\<close>

datatype param_value = PInt int | PFloat real | PStr string

datatype Distribution =
    Uniform real real
  | LogUniform real real
  | IntUniform int int
  | Categorical "param_value list"

text \<open>
  Modelled from the spec: \<^verbatim>\<open>SweepConfig\<close> (module \<^verbatim>\<open>lightning_hpo.commands.sweep\<close>).
  The fields are the ones \<^verbatim>\<open>create_sweep\<close> reads; section 6 of the specification
  lists the same request fields. The prefix \<open>cfg_\<close> keeps them apart from the
  attributes of \<^verbatim>\<open>Sweep\<close> that carry the same names.
\<close>

record SweepConfig =
  cfg_sweep_id :: string
  cfg_script_path :: string
  cfg_n_trials :: int
  cfg_simultaneous_trials :: int
  cfg_framework :: string
  cfg_script_args :: "string list"
  cfg_distributions :: "(string \<times> Distribution) list"
  cfg_cloud_compute :: string
  cfg_num_nodes :: int
  cfg_requirements :: "string list"
  cfg_logger :: string
  cfg_direction :: string

text \<open>
  The values that \<^verbatim>\<open>create_sweep\<close> builds for the constructor of \<^verbatim>\<open>Sweep\<close>:
  \<^verbatim>\<open>CloudCompute(config.cloud_compute, config.num_nodes)\<close>,
  \<^verbatim>\<open>{"drive": self.drive, "name": config.sweep_id}\<close>,
  \<^verbatim>\<open>BuildConfig(requirements=config.requirements)\<close> and
  \<^verbatim>\<open>OptunaAlgorithm(optuna.create_study(direction=config.direction))\<close>.
  They are plain data here.
\<close>

datatype CloudCompute = CloudCompute string int

datatype BuildConfig = BuildConfig "string list"

datatype Study = create_study string

datatype OptunaAlgorithm = OptunaAlgorithm Study

record code_ref =
  code_drive :: string
  code_name :: string

text \<open>
  Modelled from the spec: the lifecycle of a trial and what a \<^verbatim>\<open>Sweep\<close> keeps
  about it (class \<^verbatim>\<open>Sweep\<close> is not part of the sources at hand). Section 4.3 gives
  the states, section 3 the attributes. The flag \<open>forwarded\<close> records that the
  terminal record has been handed to the persistence collaborator (section 3:
  once terminal, ownership of the record transfers to that collaborator).
\<close>

datatype trial_state = PENDING | RUNNING | SUCCEEDED | PRUNED | FAILED

fun terminal :: "trial_state \<Rightarrow> bool" where
  "terminal SUCCEEDED = True"
| "terminal PRUNED = True"
| "terminal FAILED = True"
| "terminal PENDING = False"
| "terminal RUNNING = False"

record work =
  w_trial_id :: int
  w_state :: trial_state
  w_params :: "(string \<times> param_value) list"
  w_reports :: "(real \<times> int) list"
  w_best_model_score :: "real option"
  w_monitor :: string
  w_url :: string
  forwarded :: bool

text \<open>
  The record \<^verbatim>\<open>Trial\<close> of \<^verbatim>\<open>lightning_hpo.components.servers.db.models\<close>: what is
  posted to the database and read back by \<^verbatim>\<open>render_fn\<close>. The fields are the ones
  \<^verbatim>\<open>render_fn\<close> reads; \<open>trial_row_id\<close> is the source's \<^verbatim>\<open>trial.id\<close>, the key the
  database assigns to a stored row, and the prefix \<open>trial_\<close> keeps the other fields apart
  from the attributes of \<^verbatim>\<open>Sweep\<close>.
\<close>

record Trial =
  trial_row_id :: "int option"
  trial_sweep_id :: string
  trial_id :: int
  trial_params :: "(string \<times> param_value) list"
  trial_monitor :: string
  trial_best_model_score :: "real option"
  has_succeeded :: bool
  trial_url :: string

text \<open>
  The attributes of a \<^verbatim>\<open>Sweep\<close>: the keyword arguments of the constructor call in
  \<^verbatim>\<open>create_sweep\<close>, the two attributes \<^verbatim>\<open>create_sweep\<close> reads and writes
  (\<^verbatim>\<open>restart_count\<close>, \<^verbatim>\<open>has_failed\<close>), and the trials of the sweep.
\<close>

record Sweep =
  script_path :: string
  n_trials :: int
  simultaneous_trials :: int
  framework :: string
  script_args :: "string list"
  distributions :: "(string \<times> Distribution) list"
  cloud_compute :: CloudCompute
  sweep_id :: string
  code :: code_ref
  cloud_build_config :: BuildConfig
  logger :: string
  algorithm :: OptunaAlgorithm
  restart_count :: int
  has_failed :: bool
  trials :: "work list"

text \<open>
  Modelled from the spec: the constructor of \<^verbatim>\<open>Sweep\<close>. It stores each keyword
  argument in the attribute of the same name; a new sweep has never been restarted,
  has not failed, and has no trial yet (section 3: \<^verbatim>\<open>restart_count\<close> is incremented
  on recovery from failure, trial ids start at 0).
\<close>

definition Sweep_init ::
  "string \<Rightarrow> int \<Rightarrow> int \<Rightarrow> string \<Rightarrow> string list \<Rightarrow> (string \<times> Distribution) list \<Rightarrow>
   CloudCompute \<Rightarrow> string \<Rightarrow> code_ref \<Rightarrow> BuildConfig \<Rightarrow> string \<Rightarrow> OptunaAlgorithm \<Rightarrow> Sweep" where
  "Sweep_init script_path' n_trials' simultaneous_trials' framework' script_args'
     distributions' cloud_compute' sweep_id' code' cloud_build_config' logger' algorithm' =
   \<lparr> script_path = script_path',
     n_trials = n_trials',
     simultaneous_trials = simultaneous_trials',
     framework = framework',
     script_args = script_args',
     distributions = distributions',
     cloud_compute = cloud_compute',
     sweep_id = sweep_id',
     code = code',
     cloud_build_config = cloud_build_config',
     logger = logger',
     algorithm = algorithm',
     restart_count = 0,
     has_failed = False,
     trials = [] \<rparr>"

text \<open>
  The \<^verbatim>\<open>Sweeper\<close>. \<^verbatim>\<open>self.sweeps\<close> is a dictionary in insertion order: an
  association list whose entries pair the key with a reference to a \<^verbatim>\<open>Sweep\<close>
  object. A reference is the pair of the object's address and its current
  contents; \<open>n_objs\<close> counts the \<^verbatim>\<open>Sweep\<close> objects constructed so far and is the
  address of the next one. The file server, the database and its visualisation are
  external processes: what a tick observes of them is an input of \<open>run\<close> below.
\<close>

type_synonym Sweep_ref = "nat \<times> Sweep"

record Sweeper =
  sweeps :: "(string \<times> Sweep_ref) list"
  drive :: string
  n_objs :: nat

definition Sweeper_init :: Sweeper where
  "Sweeper_init = \<lparr> sweeps = [], drive = ''lit://code'', n_objs = 0 \<rparr>"

section \<open>Dictionary access\<close>

definition getitem :: "('k \<times> 'v) list \<Rightarrow> 'k \<Rightarrow> py_error + 'v" where
  "getitem d k = (case map_of d k of None \<Rightarrow> Inl KeyError | Some v \<Rightarrow> Inr v)"

section \<open>Sweeper.create\_sweep\<close>

definition msg_launched :: "string \<Rightarrow> string" where
  "msg_launched sid = ''Launched a sweep '' @ sid"

definition msg_updated :: "string \<Rightarrow> string" where
  "msg_updated sid = ''Updated code for Sweep '' @ sid @ ''.''"

definition msg_running :: "string \<Rightarrow> string" where
  "msg_running sid =
     ''The current Sweep '' @ sid @ '' is running. It couldn'' @ [CHR 0x27] @ ''t be updated.''"

definition create_sweep :: "Sweeper \<Rightarrow> SweepConfig \<Rightarrow> py_error + (string \<times> Sweeper)" where
  "create_sweep self config =
    (let sweep_ids = map fst (sweeps self) in
     if cfg_sweep_id config \<notin> set sweep_ids then
       Inr (msg_launched (cfg_sweep_id config),
            self\<lparr> sweeps :=
                    AList.update (cfg_sweep_id config)
                      (n_objs self,
                       Sweep_init
                         (cfg_script_path config)
                         (cfg_n_trials config)
                         (cfg_simultaneous_trials config)
                         (cfg_framework config)
                         (cfg_script_args config)
                         (cfg_distributions config)
                         (CloudCompute (cfg_cloud_compute config) (cfg_num_nodes config))
                         (cfg_sweep_id config)
                         \<lparr> code_drive = drive self, code_name = cfg_sweep_id config \<rparr>
                         (BuildConfig (cfg_requirements config))
                         (cfg_logger config)
                         (OptunaAlgorithm (create_study (cfg_direction config))))
                      (sweeps self),
                  n_objs := Suc (n_objs self) \<rparr>)
     else
       (case getitem (sweeps self) (cfg_sweep_id config) of
          Inl e \<Rightarrow> Inl e
        | Inr (a, sweep) \<Rightarrow>
            if has_failed sweep then
              (let sweep1 = sweep\<lparr> restart_count := restart_count sweep + 1 \<rparr>;
                   sweep2 = sweep1\<lparr> has_failed := False \<rparr>
               in Inr (msg_updated (cfg_sweep_id config),
                       self\<lparr> sweeps := AList.update (cfg_sweep_id config) (a, sweep2) (sweeps self) \<rparr>))
            else Inr (msg_running (cfg_sweep_id config), self)))"

text \<open>
  Which object each key of \<^verbatim>\<open>self.sweeps\<close> refers to: the keys in dictionary order,
  each with the address of its \<^verbatim>\<open>Sweep\<close> object.
\<close>

definition refs :: "Sweeper \<Rightarrow> (string \<times> nat) list" where
  "refs self = map (\<lambda>(k, a, sweep). (k, a)) (sweeps self)"



section \<open>Sweeper.run\<close>

text \<open>
  What one tick observes of the external processes: whether the file server and
  the database report alive after their \<^verbatim>\<open>run()\<close>, the url of the database, and
  \<open>executors\<close>, whatever the execution collaborators of the trials report on this
  tick (the input of \<^verbatim>\<open>Sweep.run\<close>).
\<close>

record 'e tick_env =
  file_server_alive :: bool
  db_alive :: bool
  db_url :: string
  executors :: 'e

text \<open>
  The two methods of \<^verbatim>\<open>Sweep\<close> that \<^verbatim>\<open>Sweeper.run\<close> calls. Class \<^verbatim>\<open>Sweep\<close> is not part
  of the sources at hand, so they are parameters. \<^verbatim>\<open>get_trials\<close> returns records and
  may update the sweep.
\<close>

record 'e Sweep_ops =
  Sweep_run :: "'e \<Rightarrow> Sweep \<Rightarrow> Sweep"
  Sweep_get_trials :: "Sweep \<Rightarrow> Trial list \<times> Sweep"

text \<open>
  The calls a tick makes on its collaborators, in order. \<open>SweepRun k a\<close> is the call
  \<^verbatim>\<open>sweep.run()\<close> on the object at address \<open>a\<close>, held under key \<open>k\<close>;
  \<open>Post url trial\<close> is \<^verbatim>\<open>requests.post(url, data=trial.json())\<close>, the record standing
  for its JSON text. \<open>Reply\<close> is the string a command returns to its caller.
\<close>

datatype event =
    FileServerRun
  | DatabaseRun
  | DatabaseVizRun
  | SweepRun string nat
  | SweepGetTrials string nat
  | Post string Trial
  | Reply string

text \<open>
  The loop \<^verbatim>\<open>for sweep in self.sweeps.values()\<close>: the entries after the loop, the
  list \<^verbatim>\<open>trials\<close> it has collected, and the calls it made.
\<close>

fun run_sweeps ::
  "'e Sweep_ops \<Rightarrow> 'e \<Rightarrow> (string \<times> Sweep_ref) list \<Rightarrow>
   (string \<times> Sweep_ref) list \<times> Trial list \<times> event list" where
  "run_sweeps ops e [] = ([], [], [])"
| "run_sweeps ops e ((k, a, sweep) # rest) =
     (let sweep1 = Sweep_run ops e sweep;
          (new, sweep2) = Sweep_get_trials ops sweep1;
          (rest', collected, events) = run_sweeps ops e rest
      in ((k, a, sweep2) # rest', new @ collected, SweepRun k a # SweepGetTrials k a # events))"

definition run :: "'e Sweep_ops \<Rightarrow> 'e tick_env \<Rightarrow> Sweeper \<Rightarrow> Sweeper \<times> event list" where
  "run ops env self =
     (let started = [FileServerRun, DatabaseRun, DatabaseVizRun] in
      if file_server_alive env \<and> db_alive env then
        (let (sweeps', collected, events) = run_sweeps ops (executors env) (sweeps self);
             posted = (if collected \<noteq> []
                       then map (\<lambda>trial. Post (db_url env @ ''/trial'') trial) collected
                       else [])
         in (self\<lparr> sweeps := sweeps' \<rparr>, started @ events @ posted))
      else (self, started))"

text \<open>Reading a list of calls: the sweeps that were run, and the records posted.\<close>

fun sweep_runs :: "event list \<Rightarrow> (string \<times> nat) list" where
  "sweep_runs [] = []"
| "sweep_runs (SweepRun k a # es) = (k, a) # sweep_runs es"
| "sweep_runs (_ # es) = sweep_runs es"

fun posts :: "event list \<Rightarrow> Trial list" where
  "posts [] = []"
| "posts (Post url trial # es) = trial # posts es"
| "posts (_ # es) = posts es"

section \<open>Sequences of commands and ticks\<close>



section \<open>Sweep.get\_trials\<close>

text \<open>
  Modelled from the spec: \<^verbatim>\<open>Sweep.get_trials\<close> (class \<^verbatim>\<open>Sweep\<close> is not part of the
  sources at hand). Section 4.5: the \<^verbatim>\<open>Sweeper\<close> collects the newly-terminal trials
  of every sweep; section 3: a trial becomes an immutable record once terminal, and
  ownership of the record then transfers to the persistence collaborator. A trial
  is newly terminal when its state is terminal and its record has not been handed
  over; \<open>get_trials\<close> returns the records of those trials and marks them handed over.
\<close>

definition newly_terminal :: "work \<Rightarrow> bool" where
  "newly_terminal w = (terminal (w_state w) \<and> \<not> forwarded w)"

definition to_record :: "Sweep \<Rightarrow> work \<Rightarrow> Trial" where
  "to_record sweep w =
     \<lparr> trial_row_id = None,
       trial_sweep_id = sweep_id sweep,
       trial_id = w_trial_id w,
       trial_params = w_params w,
       trial_monitor = w_monitor w,
       trial_best_model_score = w_best_model_score w,
       has_succeeded = (w_state w = SUCCEEDED),
       trial_url = w_url w \<rparr>"

definition hand_over :: "work \<Rightarrow> work" where
  "hand_over w = (if newly_terminal w then w\<lparr> forwarded := True \<rparr> else w)"

definition get_trials :: "Sweep \<Rightarrow> Trial list \<times> Sweep" where
  "get_trials sweep =
     (map (to_record sweep) (filter newly_terminal (trials sweep)),
      sweep\<lparr> trials := map hand_over (trials sweep) \<rparr>)"

definition spec_ops :: "('e \<Rightarrow> Sweep \<Rightarrow> Sweep) \<Rightarrow> 'e Sweep_ops" where
  "spec_ops f = \<lparr> Sweep_run = f, Sweep_get_trials = get_trials \<rparr>"







section \<open>The dashboard: render\_fn\<close>

text \<open>
  \<^verbatim>\<open>str.split(sep)\<close> for a separator of one character, as in
  \<^verbatim>\<open>trial.sweep_id.split("-")\<close>: the pieces between the occurrences of the separator,
  empty pieces included. \<open>cur\<close> is the piece being read.
\<close>

fun split_acc :: "char \<Rightarrow> string \<Rightarrow> string \<Rightarrow> string list" where
  "split_acc sep cur [] = [cur]"
| "split_acc sep cur (x # xs) =
     (if x = sep then cur # split_acc sep [] xs else split_acc sep (cur @ [x]) xs)"

definition str_split :: "string \<Rightarrow> char \<Rightarrow> string list" where
  "str_split s sep = split_acc sep [] s"

text \<open>
  The assignment \<^verbatim>\<open>username, sweep_id = ...\<close> unpacks a list of exactly two
  elements and raises \<^verbatim>\<open>ValueError\<close> on any other length.
\<close>

fun unpack2 :: "string list \<Rightarrow> py_error + (string \<times> string)" where
  "unpack2 [a, b] = Inr (a, b)"
| "unpack2 _ = Inl ValueError"

text \<open>
  The first loop of \<^verbatim>\<open>render_fn\<close>: it files every stored trial under its user name
  and sweep name, in the nested dictionary \<^verbatim>\<open>user_sweeps\<close>.
\<close>

type_synonym user_sweeps = "(string \<times> (string \<times> Trial list) list) list"

fun group_trials :: "Trial list \<Rightarrow> user_sweeps \<Rightarrow> py_error + user_sweeps" where
  "group_trials [] user_sweeps = Inr user_sweeps"
| "group_trials (trial # rest) user_sweeps =
     (case unpack2 (str_split (trial_sweep_id trial) CHR ''-'') of
        Inl e \<Rightarrow> Inl e
      | Inr (username, sweep_id') \<Rightarrow>
          (let user_sweeps1 =
                 (if username \<notin> set (map fst user_sweeps)
                  then AList.update username [] user_sweeps else user_sweeps)
           in case getitem user_sweeps1 username of
                Inl e \<Rightarrow> Inl e
              | Inr of_user \<Rightarrow>
                  (let of_user1 =
                         (if sweep_id' \<notin> set (map fst of_user)
                          then AList.update sweep_id' [] of_user else of_user)
                   in case getitem of_user1 sweep_id' of
                        Inl e \<Rightarrow> Inl e
                      | Inr found \<Rightarrow>
                          group_trials rest
                            (AList.update username
                               (AList.update sweep_id' (found @ [trial]) of_user1)
                               user_sweeps1))))"

text \<open>
  What \<^verbatim>\<open>render_fn\<close> displays. Either the hint that no sweep has been launched, or
  one tab per user; a tab holds one expander per sweep, labelled with the sweep
  name and a status, with one checkbox per trial (its label shows the trial id, its
  key is made of the row id and the sweep name, and ticking it shows params, monitor
  and best score) and a link to the logger. The Python variable \<^verbatim>\<open>trial\<close> is not
  local to a loop: the status line and the link read whatever trial was bound
  last, so the rendering loops thread that variable.
\<close>

record checkbox =
  cb_trial_id :: int
  cb_key :: "int option \<times> string"
  cb_params :: "(string \<times> param_value) list"
  cb_monitor :: string
  cb_best_model_score :: "real option"

record expander =
  ex_label :: string
  ex_trials :: "checkbox list"
  ex_logging_url :: string

datatype view = NoSweeps | Tabs "(string \<times> expander list) list"

definition trial_checkbox :: "string \<Rightarrow> Trial \<Rightarrow> checkbox" where
  "trial_checkbox sweep_id' trial =
     \<lparr> cb_trial_id = trial_id trial,
       cb_key = (trial_row_id trial, sweep_id'),
       cb_params = trial_params trial,
       cb_monitor = trial_monitor trial,
       cb_best_model_score = trial_best_model_score trial \<rparr>"

fun render_sweeps :: "(string \<times> Trial list) list \<Rightarrow> Trial \<Rightarrow> expander list \<times> Trial" where
  "render_sweeps [] trial = ([], trial)"
| "render_sweeps ((sweep_id', trials') # rest) trial =
     (let status = (if has_succeeded trial then ''/ Succeeded'' else ''/ Failed'');
          trial1 = (if trials' = [] then trial else last trials');
          shown = \<lparr> ex_label = sweep_id' @ '' '' @ status,
                    ex_trials = map (trial_checkbox sweep_id') trials',
                    ex_logging_url = trial_url trial1 \<rparr>;
          (others, trial2) = render_sweeps rest trial1
      in (shown # others, trial2))"

fun render_tabs :: "user_sweeps \<Rightarrow> Trial \<Rightarrow> (string \<times> expander list) list" where
  "render_tabs [] trial = []"
| "render_tabs ((username, of_user) # rest) trial =
     (let (shown, trial1) = render_sweeps of_user trial
      in (username, shown) # render_tabs rest trial1)"

text \<open>
  \<^verbatim>\<open>render_fn\<close>, as a function of the rows that
  \<^verbatim>\<open>session.exec(select(Trial)).all()\<close> returns from the database.
\<close>

definition render_fn :: "Trial list \<Rightarrow> py_error + view" where
  "render_fn trials' =
     (if trials' = [] then Inr NoSweeps
      else case group_trials trials' [] of
             Inl e \<Rightarrow> Inl e
           | Inr user_sweeps \<Rightarrow> Inr (Tabs (render_tabs user_sweeps (last trials'))))"

section \<open>The abstract class Algorithm\<close>

text \<open>
  \<^verbatim>\<open>lightning_hpo/algorithm/base.py\<close> declares a class with abstract methods only;
  it has no behaviour of its own, so its content is its list of method
  declarations: the name, the parameters after \<^verbatim>\<open>self\<close> with their annotations, the
  annotation of the result (\<open>None\<close> where the source gives none), and whether the
  method is marked \<^verbatim>\<open>@abstractmethod\<close>.
\<close>

datatype py_type = T_int | T_float | T_bool | T_str | T_Any | T_List py_type | T_Dict py_type py_type

record method_decl =
  m_name :: string
  m_params :: "(string \<times> py_type option) list"
  m_returns :: "py_type option"
  m_abstract :: bool

definition Algorithm_methods :: "method_decl list" where
  "Algorithm_methods =
     [ \<lparr> m_name = ''register_distributions'',
         m_params = [(''distributions'', None)],
         m_returns = None, m_abstract = True \<rparr>,
       \<lparr> m_name = ''trial_start'',
         m_params = [(''trial_id'', Some T_int)],
         m_returns = None, m_abstract = True \<rparr>,
       \<lparr> m_name = ''trial_end'',
         m_params = [(''trial_id'', Some T_int), (''score'', Some T_float)],
         m_returns = None, m_abstract = True \<rparr>,
       \<lparr> m_name = ''should_prune'',
         m_params = [(''trial_id'', Some T_int), (''reports'', Some (T_List T_float))],
         m_returns = Some T_bool, m_abstract = True \<rparr>,
       \<lparr> m_name = ''get_params'',
         m_params = [(''trial_id'', Some T_int)],
         m_returns = Some (T_Dict T_str T_Any), m_abstract = True \<rparr> ]"

definition returns_of :: "string \<Rightarrow> py_type option list" where
  "returns_of name = map m_returns (filter (\<lambda>m. m_name m = name) Algorithm_methods)"

section \<open>Example values\<close>

text \<open>
  The request of the scenarios of the specification (\<^verbatim>\<open>sweep_id="alice-exp1"\<close>), the
  sweep it creates, and that sweep after it has failed.
\<close>

definition cfg_alice :: SweepConfig where
  "cfg_alice =
     \<lparr> cfg_sweep_id = ''alice-exp1'',
       cfg_script_path = ''train.py'',
       cfg_n_trials = 2,
       cfg_simultaneous_trials = 1,
       cfg_framework = ''pytorch_lightning'',
       cfg_script_args = [],
       cfg_distributions = [(''model.lr'', LogUniform (1 / 1000) (1 / 10))],
       cfg_cloud_compute = ''cpu'',
       cfg_num_nodes = 1,
       cfg_requirements = [],
       cfg_logger = ''wandb'',
       cfg_direction = ''maximize'' \<rparr>"

definition sweep_alice :: Sweep where
  "sweep_alice =
     Sweep_init ''train.py'' 2 1 ''pytorch_lightning'' []
       [(''model.lr'', LogUniform (1 / 1000) (1 / 10))]
       (CloudCompute ''cpu'' 1) ''alice-exp1''
       \<lparr> code_drive = ''lit://code'', code_name = ''alice-exp1'' \<rparr>
       (BuildConfig []) ''wandb'' (OptunaAlgorithm (create_study ''maximize''))"

definition finished_trial :: work where
  "finished_trial =
     \<lparr> w_trial_id = 0, w_state = SUCCEEDED, w_params = [(''model.lr'', PFloat (1 / 100))],
       w_reports = [(1 / 2, 0)], w_best_model_score = Some (1 / 2), w_monitor = ''accuracy'',
       w_url = ''http://wandb/0'', forwarded = True \<rparr>"

definition sweep_alice_failed :: Sweep where
  "sweep_alice_failed = sweep_alice\<lparr> has_failed := True, trials := [finished_trial] \<rparr>"

definition sweeper_alice :: Sweeper where
  "sweeper_alice = \<lparr> sweeps = [(''alice-exp1'', (0, sweep_alice))], drive = ''lit://code'', n_objs = 1 \<rparr>"

definition sweeper_alice_failed :: Sweeper where
  "sweeper_alice_failed =
     \<lparr> sweeps = [(''alice-exp1'', (0, sweep_alice_failed))], drive = ''lit://code'', n_objs = 1 \<rparr>"

text \<open>
  A second sweep; a \<^verbatim>\<open>Sweeper\<close> holding both sweeps; a sweep with a
  terminal trial whose record has not been handed over yet; two ticks, one with
  both collaborators alive and one with the file server down; and a \<^verbatim>\<open>Sweep.run\<close>
  that admits trial 0 into an empty sweep and otherwise lets every running trial
  succeed.
\<close>

definition sweep_bob :: Sweep where
  "sweep_bob =
     sweep_alice\<lparr> sweep_id := ''bob-exp2'',
                  code := \<lparr> code_drive = ''lit://code'', code_name = ''bob-exp2'' \<rparr> \<rparr>"

definition sweeper_two :: Sweeper where
  "sweeper_two =
     \<lparr> sweeps = [(''alice-exp1'', (0, sweep_alice)), (''bob-exp2'', (1, sweep_bob))],
       drive = ''lit://code'', n_objs = 2 \<rparr>"

definition sweep_alice_done :: Sweep where
  "sweep_alice_done = sweep_alice\<lparr> trials := [finished_trial\<lparr> forwarded := False \<rparr>] \<rparr>"

definition sweeper_alice_done :: Sweeper where
  "sweeper_alice_done =
     \<lparr> sweeps = [(''alice-exp1'', (0, sweep_alice_done))], drive = ''lit://code'', n_objs = 1 \<rparr>"

definition env_up :: "unit tick_env" where
  "env_up = \<lparr> file_server_alive = True, db_alive = True, db_url = ''http://db'', executors = () \<rparr>"

definition env_down :: "unit tick_env" where
  "env_down = \<lparr> file_server_alive = False, db_alive = True, db_url = ''http://db'', executors = () \<rparr>"

definition new_trial :: "int \<Rightarrow> work" where
  "new_trial i =
     \<lparr> w_trial_id = i, w_state = RUNNING, w_params = [], w_reports = [],
       w_best_model_score = None, w_monitor = ''accuracy'', w_url = [], forwarded = False \<rparr>"

definition finish :: "work \<Rightarrow> work" where
  "finish w = (if w_state w = RUNNING then w\<lparr> w_state := SUCCEEDED \<rparr> else w)"

definition demo_run :: "unit \<Rightarrow> Sweep \<Rightarrow> Sweep" where
  "demo_run e sweep =
     (if trials sweep = [] then sweep\<lparr> trials := [new_trial 0] \<rparr>
      else sweep\<lparr> trials := map finish (trials sweep) \<rparr>)"




text \<open>Rows of the database: one with a sweep id of the form user-name, one without a hyphen.\<close>

definition row_alice :: Trial where
  "row_alice =
     \<lparr> trial_row_id = Some 1, trial_sweep_id = ''alice-exp1'', trial_id = 0,
       trial_params = [], trial_monitor = ''accuracy'', trial_best_model_score = Some (1 / 2),
       has_succeeded = True, trial_url = ''http://wandb/0'' \<rparr>"

definition row_no_hyphen :: Trial where
  "row_no_hyphen =
     row_alice\<lparr> trial_row_id := Some 2,
                trial_sweep_id := ''Optimizing a Simple CNN over MNIST with Lightning HPO'' \<rparr>"

section \<open>Basic facts\<close>

lemma getitem_Some: "map_of d k = Some v \<Longrightarrow> getitem d k = Inr v"
  by (simp add: getitem_def)

lemma key_present: "map_of d k = Some v \<Longrightarrow> k \<in> set (map fst d)"
  by (metis map_of_eq_None_iff option.distinct(1) set_map)

lemma create_sweep_existing:
  assumes "map_of (sweeps self) (cfg_sweep_id config) = Some (a, sweep)"
  shows "create_sweep self config =
           (if has_failed sweep then
              Inr (msg_updated (cfg_sweep_id config),
                   self\<lparr> sweeps := AList.update (cfg_sweep_id config)
                            (a, sweep\<lparr> restart_count := restart_count sweep + 1, has_failed := False \<rparr>)
                            (sweeps self) \<rparr>)
            else Inr (msg_running (cfg_sweep_id config), self))"
  using key_present[OF assms] getitem_Some[OF assms]
  by (simp add: create_sweep_def Let_def)

lemma refs_update_same:
  "map_of al k = Some (a, sweep) \<Longrightarrow>
   map (\<lambda>(k, a, sweep). (k, a)) (AList.update k (a, sweep') al) = map (\<lambda>(k, a, sweep). (k, a)) al"
  by (induction al) (auto split: if_splits)


lemma others_update:
  "filter (\<lambda>e. fst e \<noteq> k) (AList.update k v al) = filter (\<lambda>e. fst e \<noteq> k) al"
  by (induction al) auto



section \<open>Facts about run and exec\<close>

lemma run_sweeps_closed:
  "run_sweeps ops e al =
     (map (\<lambda>(k, a, sweep). (k, a, snd (Sweep_get_trials ops (Sweep_run ops e sweep)))) al,
      concat (map (\<lambda>(k, a, sweep). fst (Sweep_get_trials ops (Sweep_run ops e sweep))) al),
      concat (map (\<lambda>(k, a, sweep). [SweepRun k a, SweepGetTrials k a]) al))"
  by (induction al) (auto simp: Let_def split: prod.splits)

lemma sweep_runs_append: "sweep_runs (xs @ ys) = sweep_runs xs @ sweep_runs ys"
  by (induction xs rule: sweep_runs.induct) auto


lemma sweep_runs_Post: "sweep_runs (map (Post url) ts) = []"
  by (induction ts) auto


lemma sweep_runs_loop:
  "sweep_runs (concat (map (\<lambda>(k, a, sweep). [SweepRun k a, SweepGetTrials k a]) al)) =
   map (\<lambda>(k, a, sweep). (k, a)) al"
  by (induction al) auto


lemma run_alive:
  assumes "file_server_alive env" and "db_alive env"
  shows "run ops env self =
           (self\<lparr> sweeps := map (\<lambda>(k, a, sweep).
                      (k, a, snd (Sweep_get_trials ops (Sweep_run ops (executors env) sweep)))) (sweeps self) \<rparr>,
            [FileServerRun, DatabaseRun, DatabaseVizRun] @
            concat (map (\<lambda>(k, a, sweep). [SweepRun k a, SweepGetTrials k a]) (sweeps self)) @
            map (Post (db_url env @ ''/trial''))
              (concat (map (\<lambda>(k, a, sweep). fst (Sweep_get_trials ops (Sweep_run ops (executors env) sweep)))
                 (sweeps self))))"
  using assms by (simp add: run_def run_sweeps_closed Let_def)

lemma run_not_alive:
  assumes "\<not> (file_server_alive env \<and> db_alive env)"
  shows "run ops env self = (self, [FileServerRun, DatabaseRun, DatabaseVizRun])"
  using assms by (auto simp add: run_def Let_def)










section \<open>Facts about forwarding\<close>



































section \<open>Facts about render\_fn\<close>

lemma length_split_acc: "length (split_acc sep cur s) = Suc (count_list s sep)"
  by (induction s arbitrary: cur) auto

lemma length_str_split: "length (str_split s sep) = Suc (count_list s sep)"
  by (simp add: str_split_def length_split_acc)

lemma unpack2_fails: "unpack2 xs = Inl ValueError \<longleftrightarrow> length xs \<noteq> 2"
  by (induction xs rule: unpack2.induct) auto

lemma unpack2_cases: "length xs = 2 \<Longrightarrow> \<exists>a b. unpack2 xs = Inr (a, b)"
  by (induction xs rule: unpack2.induct) auto

lemma getitem_present: "k \<in> set (map fst d) \<Longrightarrow> \<exists>v. getitem d k = Inr v"
  by (cases "map_of d k") (auto simp: getitem_def map_of_eq_None_iff)

lemma setdefault_present:
  "k \<in> set (map fst (if k \<notin> set (map fst d) then AList.update k v d else d))"
  by (simp add: dom_update)

lemma group_trials_good:
  "\<forall>t \<in> set ts. count_list (trial_sweep_id t) CHR ''-'' = 1 \<Longrightarrow> \<exists>us'. group_trials ts us = Inr us'"
proof (induction ts arbitrary: us)
  case Nil
  show ?case by simp
next
  case (Cons t ts)
  have "length (str_split (trial_sweep_id t) CHR ''-'') = 2"
    using Cons.prems by (simp add: length_str_split)
  then obtain u s where parts: "unpack2 (str_split (trial_sweep_id t) CHR ''-'') = Inr (u, s)"
    using unpack2_cases by blast
  let ?us1 = "if u \<notin> set (map fst us) then AList.update u [] us else us"
  obtain of_user where g1: "getitem ?us1 u = Inr of_user"
    using getitem_present [OF setdefault_present [where k = u and d = us and v = "[]"]] by blast
  let ?of1 = "if s \<notin> set (map fst of_user) then AList.update s [] of_user else of_user"
  obtain found where g2: "getitem ?of1 s = Inr found"
    using getitem_present [OF setdefault_present [where k = s and d = of_user and v = "[]"]] by blast
  have "group_trials (t # ts) us =
          group_trials ts (AList.update u (AList.update s (found @ [t]) ?of1) ?us1)"
    using parts g1 g2 by (simp add: Let_def)
  then show ?case
    using Cons.IH Cons.prems by simp
qed

lemma group_trials_bad:
  "t \<in> set ts \<Longrightarrow> count_list (trial_sweep_id t) CHR ''-'' \<noteq> 1 \<Longrightarrow> group_trials ts us = Inl ValueError"
proof (induction ts arbitrary: us)
  case Nil
  then show ?case by simp
next
  case (Cons x ts)
  show ?case
  proof (cases "count_list (trial_sweep_id x) CHR ''-'' = 1")
    case False
    then have "unpack2 (str_split (trial_sweep_id x) CHR ''-'') = Inl ValueError"
      by (simp add: unpack2_fails length_str_split)
    then show ?thesis by simp
  next
    case True
    then have later: "t \<in> set ts"
      using Cons.prems by auto
    have "length (str_split (trial_sweep_id x) CHR ''-'') = 2"
      using True by (simp add: length_str_split)
    then obtain u s where parts: "unpack2 (str_split (trial_sweep_id x) CHR ''-'') = Inr (u, s)"
      using unpack2_cases by blast
    let ?us1 = "if u \<notin> set (map fst us) then AList.update u [] us else us"
    obtain of_user where g1: "getitem ?us1 u = Inr of_user"
      using getitem_present [OF setdefault_present [where k = u and d = us and v = "[]"]] by blast
    let ?of1 = "if s \<notin> set (map fst of_user) then AList.update s [] of_user else of_user"
    obtain found where g2: "getitem ?of1 s = Inr found"
      using getitem_present [OF setdefault_present [where k = s and d = of_user and v = "[]"]] by blast
    have "group_trials (x # ts) us =
            group_trials ts (AList.update u (AList.update s (found @ [x]) ?of1) ?us1)"
      using parts g1 g2 by (simp add: Let_def)
    then show ?thesis
      using Cons.IH [OF later Cons.prems(2)] by simp
  qed
qed

section \<open>Claims about create\_sweep\<close>

text \<open>
  C1. When the \<^verbatim>\<open>sweep_id\<close> of the request is already a key of \<^verbatim>\<open>self.sweeps\<close> and
  that sweep has not failed, \<^verbatim>\<open>create_sweep\<close> returns the rejection message and
  changes nothing: the whole \<^verbatim>\<open>Sweeper\<close> (its mapping, every \<^verbatim>\<open>Sweep\<close> in it, and
  the number of \<^verbatim>\<open>Sweep\<close> objects constructed) is as before.
\<close>

theorem create_sweep_rejects_live:
  assumes "map_of (sweeps self) (cfg_sweep_id config) = Some (a, sweep)"
    and "\<not> has_failed sweep"
  shows "create_sweep self config = Inr (msg_running (cfg_sweep_id config), self)"
  using assms by (simp add: create_sweep_existing)

theorem create_sweep_rejects_live_witness:
  "create_sweep Sweeper_init cfg_alice = Inr (msg_launched ''alice-exp1'', sweeper_alice) \<and>
   map_of (sweeps sweeper_alice) (cfg_sweep_id cfg_alice) = Some (0, sweep_alice) \<and>
   \<not> has_failed sweep_alice \<and>
   create_sweep sweeper_alice cfg_alice = Inr (msg_running ''alice-exp1'', sweeper_alice)"
proof -
  have first: "create_sweep Sweeper_init cfg_alice = Inr (msg_launched ''alice-exp1'', sweeper_alice)"
    by (simp add: create_sweep_def Sweeper_init_def cfg_alice_def sweeper_alice_def sweep_alice_def)
  have present: "map_of (sweeps sweeper_alice) (cfg_sweep_id cfg_alice) = Some (0, sweep_alice)"
    by (simp add: sweeper_alice_def cfg_alice_def)
  have live: "\<not> has_failed sweep_alice"
    by (simp add: sweep_alice_def Sweep_init_def)
  have "create_sweep sweeper_alice cfg_alice = Inr (msg_running (cfg_sweep_id cfg_alice), sweeper_alice)"
    using create_sweep_rejects_live [OF present live] .
  then show ?thesis
    using first present live by (simp add: cfg_alice_def)
qed

text \<open>
  C2. When the \<^verbatim>\<open>sweep_id\<close> of the request is already a key of \<^verbatim>\<open>self.sweeps\<close> and
  that sweep has failed, \<^verbatim>\<open>create_sweep\<close> restarts it: it returns the message of
  the restarted outcome; afterwards the key refers to the same \<^verbatim>\<open>Sweep\<close> object,
  whose \<^verbatim>\<open>restart_count\<close> is one more than before and whose \<^verbatim>\<open>has_failed\<close> is
  false; no \<^verbatim>\<open>Sweep\<close> object has been constructed, and the keys of the mapping and
  the objects they refer to are as before.
\<close>

theorem create_sweep_restarts_failed:
  assumes "map_of (sweeps self) (cfg_sweep_id config) = Some (a, sweep)"
    and "has_failed sweep"
  shows "\<exists>self' sweep'.
           create_sweep self config = Inr (msg_updated (cfg_sweep_id config), self') \<and>
           map_of (sweeps self') (cfg_sweep_id config) = Some (a, sweep') \<and>
           restart_count sweep' = restart_count sweep + 1 \<and>
           \<not> has_failed sweep' \<and>
           n_objs self' = n_objs self \<and>
           refs self' = refs self"
proof -
  let ?k = "cfg_sweep_id config"
  let ?sweep' = "sweep\<lparr> restart_count := restart_count sweep + 1, has_failed := False \<rparr>"
  let ?self' = "self\<lparr> sweeps := AList.update ?k (a, ?sweep') (sweeps self) \<rparr>"
  have "create_sweep self config = Inr (msg_updated ?k, ?self')"
    using assms by (simp add: create_sweep_existing)
  moreover have "map_of (sweeps ?self') ?k = Some (a, ?sweep')"
    by (simp add: update_conv')
  moreover have "refs ?self' = refs self"
    using refs_update_same [OF assms(1)] by (simp add: refs_def)
  ultimately show ?thesis
    by (intro exI [of _ ?self'] exI [of _ ?sweep']) simp
qed

theorem create_sweep_restarts_failed_witness:
  "map_of (sweeps sweeper_alice_failed) (cfg_sweep_id cfg_alice) = Some (0, sweep_alice_failed) \<and>
   has_failed sweep_alice_failed \<and> restart_count sweep_alice_failed = 0 \<and>
   (\<exists>self' sweep'.
      create_sweep sweeper_alice_failed cfg_alice = Inr (msg_updated ''alice-exp1'', self') \<and>
      map_of (sweeps self') ''alice-exp1'' = Some (0, sweep') \<and>
      restart_count sweep' = 1 \<and> \<not> has_failed sweep' \<and> n_objs self' = 1)"
proof -
  have present: "map_of (sweeps sweeper_alice_failed) (cfg_sweep_id cfg_alice) = Some (0, sweep_alice_failed)"
    by (simp add: sweeper_alice_failed_def cfg_alice_def)
  have failed: "has_failed sweep_alice_failed"
    by (simp add: sweep_alice_failed_def)
  have count: "restart_count sweep_alice_failed = 0"
    by (simp add: sweep_alice_failed_def sweep_alice_def Sweep_init_def)
  have objs: "n_objs sweeper_alice_failed = 1"
    by (simp add: sweeper_alice_failed_def)
  have key: "cfg_sweep_id cfg_alice = ''alice-exp1''"
    by (simp add: cfg_alice_def)
  from create_sweep_restarts_failed [OF present failed]
  obtain self' sweep' where
    "create_sweep sweeper_alice_failed cfg_alice = Inr (msg_updated (cfg_sweep_id cfg_alice), self')"
    "map_of (sweeps self') (cfg_sweep_id cfg_alice) = Some (0, sweep')"
    "restart_count sweep' = restart_count sweep_alice_failed + 1"
    "\<not> has_failed sweep'"
    "n_objs self' = n_objs sweeper_alice_failed"
    by blast
  then have "create_sweep sweeper_alice_failed cfg_alice = Inr (msg_updated ''alice-exp1'', self') \<and>
      map_of (sweeps self') ''alice-exp1'' = Some (0, sweep') \<and>
      restart_count sweep' = 1 \<and> \<not> has_failed sweep' \<and> n_objs self' = 1"
    using count objs key by simp
  then show ?thesis
    using present failed count by blast
qed

text \<open>
  C4. The restart changes nothing but \<^verbatim>\<open>restart_count\<close> and \<^verbatim>\<open>has_failed\<close> of the
  sweep named by the request. That sweep afterwards is the sweep before with those
  two attributes updated, so its trials, distributions, algorithm,
  \<^verbatim>\<open>n_trials\<close>, \<^verbatim>\<open>simultaneous_trials\<close> and every other attribute are as before; the
  entries of \<^verbatim>\<open>self.sweeps\<close> under every other key are as before, in the same
  order; the keys and the objects they refer to, the drive and the number of
  constructed \<^verbatim>\<open>Sweep\<close> objects are as before.
\<close>

theorem create_sweep_restart_frame:
  assumes "map_of (sweeps self) (cfg_sweep_id config) = Some (a, sweep)"
    and "has_failed sweep"
  shows "\<exists>msg self' sweep'.
           create_sweep self config = Inr (msg, self') \<and>
           map_of (sweeps self') (cfg_sweep_id config) = Some (a, sweep') \<and>
           sweep' = sweep\<lparr> restart_count := restart_count sweep + 1, has_failed := False \<rparr> \<and>
           trials sweep' = trials sweep \<and>
           distributions sweep' = distributions sweep \<and>
           algorithm sweep' = algorithm sweep \<and>
           n_trials sweep' = n_trials sweep \<and>
           simultaneous_trials sweep' = simultaneous_trials sweep \<and>
           filter (\<lambda>e. fst e \<noteq> cfg_sweep_id config) (sweeps self') =
             filter (\<lambda>e. fst e \<noteq> cfg_sweep_id config) (sweeps self) \<and>
           refs self' = refs self \<and>
           drive self' = drive self \<and>
           n_objs self' = n_objs self"
proof -
  let ?k = "cfg_sweep_id config"
  let ?sweep' = "sweep\<lparr> restart_count := restart_count sweep + 1, has_failed := False \<rparr>"
  let ?self' = "self\<lparr> sweeps := AList.update ?k (a, ?sweep') (sweeps self) \<rparr>"
  have "create_sweep self config = Inr (msg_updated ?k, ?self')"
    using assms by (simp add: create_sweep_existing)
  moreover have "map_of (sweeps ?self') ?k = Some (a, ?sweep')"
    by (simp add: update_conv')
  moreover have "refs ?self' = refs self"
    using refs_update_same [OF assms(1)] by (simp add: refs_def)
  moreover have "filter (\<lambda>e. fst e \<noteq> ?k) (sweeps ?self') = filter (\<lambda>e. fst e \<noteq> ?k) (sweeps self)"
    by (simp add: others_update)
  ultimately show ?thesis
    by (intro exI [of _ "msg_updated ?k"] exI [of _ ?self'] exI [of _ ?sweep']) simp
qed

theorem create_sweep_restart_frame_witness:
  "map_of (sweeps sweeper_alice_failed) (cfg_sweep_id cfg_alice) = Some (0, sweep_alice_failed) \<and>
   has_failed sweep_alice_failed \<and>
   (\<exists>msg self' sweep'.
      create_sweep sweeper_alice_failed cfg_alice = Inr (msg, self') \<and>
      map_of (sweeps self') ''alice-exp1'' = Some (0, sweep') \<and>
      trials sweep' = [finished_trial] \<and>
      distributions sweep' = [(''model.lr'', LogUniform (1 / 1000) (1 / 10))] \<and>
      n_trials sweep' = 2 \<and> simultaneous_trials sweep' = 1)"
proof -
  have present: "map_of (sweeps sweeper_alice_failed) (cfg_sweep_id cfg_alice) = Some (0, sweep_alice_failed)"
    by (simp add: sweeper_alice_failed_def cfg_alice_def)
  have failed: "has_failed sweep_alice_failed"
    by (simp add: sweep_alice_failed_def)
  have before: "trials sweep_alice_failed = [finished_trial]"
    "distributions sweep_alice_failed = [(''model.lr'', LogUniform (1 / 1000) (1 / 10))]"
    "n_trials sweep_alice_failed = 2" "simultaneous_trials sweep_alice_failed = 1"
    by (simp_all add: sweep_alice_failed_def sweep_alice_def Sweep_init_def)
  have key: "cfg_sweep_id cfg_alice = ''alice-exp1''"
    by (simp add: cfg_alice_def)
  from create_sweep_restart_frame [OF present failed]
  obtain msg self' sweep' where
    "create_sweep sweeper_alice_failed cfg_alice = Inr (msg, self')"
    "map_of (sweeps self') (cfg_sweep_id cfg_alice) = Some (0, sweep')"
    "trials sweep' = trials sweep_alice_failed"
    "distributions sweep' = distributions sweep_alice_failed"
    "n_trials sweep' = n_trials sweep_alice_failed"
    "simultaneous_trials sweep' = simultaneous_trials sweep_alice_failed"
    by blast
  then have "create_sweep sweeper_alice_failed cfg_alice = Inr (msg, self') \<and>
      map_of (sweeps self') ''alice-exp1'' = Some (0, sweep') \<and>
      trials sweep' = [finished_trial] \<and>
      distributions sweep' = [(''model.lr'', LogUniform (1 / 1000) (1 / 10))] \<and>
      n_trials sweep' = 2 \<and> simultaneous_trials sweep' = 1"
    using before key by simp
  then show ?thesis
    using present failed by blast
qed


section \<open>Claims about run\<close>

text \<open>
  C9. On a tick on which the file server or the database does not report alive,
  \<^verbatim>\<open>Sweeper.run\<close> only starts the three collaborators: the \<^verbatim>\<open>Sweeper\<close> and every sweep
  in it are unchanged, no \<^verbatim>\<open>sweep.run()\<close> is called and no record is posted. So a
  sweep is run or a record posted only on a tick on which both report alive.
\<close>

theorem run_gated_by_liveness:
  assumes "\<not> file_server_alive env \<or> \<not> db_alive env"
  shows "run ops env self = (self, [FileServerRun, DatabaseRun, DatabaseVizRun]) \<and>
         sweep_runs (snd (run ops env self)) = [] \<and>
         posts (snd (run ops env self)) = []"
proof -
  have "run ops env self = (self, [FileServerRun, DatabaseRun, DatabaseVizRun])"
    using assms by (intro run_not_alive) blast
  then show ?thesis
    by simp
qed

theorem run_gated_by_liveness_witness:
  "\<not> file_server_alive env_down \<and>
   newly_terminal (hd (trials sweep_alice_done)) \<and>
   run (spec_ops demo_run) env_down sweeper_alice_done =
     (sweeper_alice_done, [FileServerRun, DatabaseRun, DatabaseVizRun]) \<and>
   sweep_runs (snd (run (spec_ops demo_run) env_down sweeper_alice_done)) = [] \<and>
   posts (snd (run (spec_ops demo_run) env_down sweeper_alice_done)) = []"
proof -
  have fs_down: "\<not> file_server_alive env_down"
    by (simp add: env_down_def)
  then have down: "\<not> file_server_alive env_down \<or> \<not> db_alive env_down"
    by blast
  have pending: "newly_terminal (hd (trials sweep_alice_done))"
    by (simp add: sweep_alice_done_def finished_trial_def newly_terminal_def)
  show ?thesis
    using run_gated_by_liveness [OF down, of "spec_ops demo_run" sweeper_alice_done] fs_down pending
    by blast
qed

text \<open>
  C7. As stated (on every tick, \<^verbatim>\<open>run\<close> is called on every owned sweep) the claim
  fails on a tick on which a collaborator is not alive: no sweep is run then.
  On a tick on which the file server and the database both report alive,
  \<^verbatim>\<open>Sweeper.run\<close> calls \<^verbatim>\<open>sweep.run()\<close> on every sweep of \<^verbatim>\<open>self.sweeps\<close>, once each, in
  the order of the dictionary, and every sweep afterwards is the result of its
  \<^verbatim>\<open>run()\<close> followed by its \<^verbatim>\<open>get_trials()\<close>.
\<close>

theorem run_skips_sweeps_counterexample:
  "refs sweeper_alice = [(''alice-exp1'', 0)] \<and>
   sweep_runs (snd (run (spec_ops demo_run) env_down sweeper_alice)) = []"
  by (simp add: refs_def sweeper_alice_def run_def env_down_def)

theorem run_ticks_every_sweep:
  assumes "file_server_alive env" and "db_alive env"
  shows "sweep_runs (snd (run ops env self)) = refs self \<and>
         sweeps (fst (run ops env self)) =
           map (\<lambda>(k, a, sweep).
                  (k, a, snd (Sweep_get_trials ops (Sweep_run ops (executors env) sweep))))
             (sweeps self)"
  using assms
  by (simp add: run_alive sweep_runs_append sweep_runs_loop sweep_runs_Post refs_def)

theorem run_ticks_every_sweep_witness:
  "file_server_alive env_up \<and> db_alive env_up \<and>
   sweep_runs (snd (run (spec_ops demo_run) env_up sweeper_two)) =
     [(''alice-exp1'', 0), (''bob-exp2'', 1)]"
proof -
  have up: "file_server_alive env_up" "db_alive env_up"
    by (simp_all add: env_up_def)
  have "refs sweeper_two = [(''alice-exp1'', 0), (''bob-exp2'', 1)]"
    by (simp add: refs_def sweeper_two_def)
  then show ?thesis
    using run_ticks_every_sweep [OF up, of "spec_ops demo_run" sweeper_two] up
    by simp
qed

section \<open>Claims about sequences of commands and ticks\<close>




section \<open>Claims about the dashboard\<close>

text \<open>
  C10. \<^verbatim>\<open>render_fn\<close> relies on every stored trial's \<^verbatim>\<open>sweep_id\<close> splitting on the
  hyphen into exactly two parts. It raises \<^verbatim>\<open>ValueError\<close>, and displays nothing,
  exactly when some stored trial has a \<^verbatim>\<open>sweep_id\<close> that does not contain exactly
  one hyphen; when every stored trial's \<^verbatim>\<open>sweep_id\<close> contains exactly one hyphen it
  returns a display.
\<close>

theorem render_fn_needs_one_hyphen:
  "(render_fn trials' = Inl ValueError) =
     (\<exists>t \<in> set trials'. count_list (trial_sweep_id t) CHR ''-'' \<noteq> 1) \<and>
   (\<exists>shown. render_fn trials' = Inr shown) =
     (\<not> (\<exists>t \<in> set trials'. count_list (trial_sweep_id t) CHR ''-'' \<noteq> 1))"
proof (cases "\<exists>t \<in> set trials'. count_list (trial_sweep_id t) CHR ''-'' \<noteq> 1")
  case True
  then obtain t where "t \<in> set trials'" "count_list (trial_sweep_id t) CHR ''-'' \<noteq> 1"
    by blast
  then have "group_trials trials' [] = Inl ValueError" "trials' \<noteq> []"
    using group_trials_bad by auto
  then have "render_fn trials' = Inl ValueError"
    by (simp add: render_fn_def)
  then show ?thesis
    using True by simp
next
  case False
  then have "\<forall>t \<in> set trials'. count_list (trial_sweep_id t) CHR ''-'' = 1"
    by blast
  then obtain grouped where "group_trials trials' [] = Inr grouped"
    using group_trials_good by blast
  then have "\<exists>shown. render_fn trials' = Inr shown"
    by (simp add: render_fn_def)
  then show ?thesis
    using False by auto
qed

theorem render_fn_needs_one_hyphen_witness:
  "count_list (trial_sweep_id row_no_hyphen) CHR ''-'' = 0 \<and>
   render_fn [row_alice, row_no_hyphen] = Inl ValueError \<and>
   (\<exists>shown. render_fn [row_alice] = Inr shown)"
proof -
  have none: "count_list (trial_sweep_id row_no_hyphen) CHR ''-'' = 0"
    by (simp add: row_no_hyphen_def)
  have one: "count_list (trial_sweep_id row_alice) CHR ''-'' = 1"
    by (simp add: row_alice_def)
  have "render_fn [row_alice, row_no_hyphen] = Inl ValueError"
    using render_fn_needs_one_hyphen [of "[row_alice, row_no_hyphen]"] none by simp
  moreover have "\<exists>shown. render_fn [row_alice] = Inr shown"
    using render_fn_needs_one_hyphen [of "[row_alice]"] one by simp
  ultimately show ?thesis
    using none by blast
qed

section \<open>Claims about the Algorithm interface\<close>

text \<open>
  C5. As stated (the interface has exactly the four operations
  \<^verbatim>\<open>register_distributions\<close>, \<^verbatim>\<open>trial_start\<close>, \<^verbatim>\<open>should_prune\<close>, \<^verbatim>\<open>trial_end\<close>, and
  \<^verbatim>\<open>trial_start\<close> returns the mapping of parameter names to values) the claim fails
  on the class: it declares a fifth abstract method, \<^verbatim>\<open>get_params\<close>, and it is
  \<^verbatim>\<open>get_params\<close>, not \<^verbatim>\<open>trial_start\<close>, that is declared to return the mapping.
  The class declares exactly five methods, all abstract:
  \<^verbatim>\<open>register_distributions\<close>, \<^verbatim>\<open>trial_start\<close>, \<^verbatim>\<open>trial_end\<close>, \<^verbatim>\<open>should_prune\<close> and
  \<^verbatim>\<open>get_params\<close>; \<^verbatim>\<open>trial_start(trial_id)\<close> declares no result, and
  \<^verbatim>\<open>get_params(trial_id)\<close> is declared to return \<^verbatim>\<open>Dict[str, Any]\<close>.
\<close>

theorem Algorithm_four_operations_counterexample:
  "set (map m_name Algorithm_methods) \<noteq>
     {''register_distributions'', ''trial_start'', ''should_prune'', ''trial_end''} \<and>
   returns_of ''trial_start'' \<noteq> [Some (T_Dict T_str T_Any)]"
proof -
  have "''get_params'' \<in> set (map m_name Algorithm_methods)"
    by (simp add: Algorithm_methods_def)
  moreover have "''get_params'' \<notin>
      {''register_distributions'', ''trial_start'', ''should_prune'', ''trial_end''}"
    by simp
  ultimately have "set (map m_name Algorithm_methods) \<noteq>
      {''register_distributions'', ''trial_start'', ''should_prune'', ''trial_end''}"
    by metis
  moreover have "returns_of ''trial_start'' \<noteq> [Some (T_Dict T_str T_Any)]"
    by (simp add: returns_of_def Algorithm_methods_def)
  ultimately show ?thesis
    by blast
qed

theorem Algorithm_five_operations:
  "map m_name Algorithm_methods =
     [''register_distributions'', ''trial_start'', ''trial_end'', ''should_prune'', ''get_params''] \<and>
   filter m_abstract Algorithm_methods = Algorithm_methods \<and>
   returns_of ''trial_start'' = [None] \<and>
   returns_of ''get_params'' = [Some (T_Dict T_str T_Any)]"
  by (simp add: Algorithm_methods_def returns_of_def)

end
